theory Spec2Isabelle
  imports Main "HOL-Library.Word"
begin

section \<open>Go values used by the wrapper\<close>

text \<open>
  A Go \<open>string\<close> is a byte sequence, modelled as \<^typ>\<open>string\<close> (a list of 8-bit
  characters).  A Go \<open>error\<close> is \<open>nil\<close> (\<^term>\<open>None\<close>) or one of the error values the
  wrapper can see: the \<open>*exec.ExitError\<close> of a finished child with its exit code (the
  code is \<open>-1\<close> when the child was terminated by a signal), the \<open>*strconv.NumError\<close>
  of \<open>strconv.Atoi\<close> (with the function name and the rejected text; whether the cause
  is the syntax or the range is not kept), any other error of the operating system or the standard library
  (kept by its message), and the errors the wrapper builds itself with \<open>fmt.Errorf\<close>,
  kept as the format string with its arguments.
\<close>

datatype error =
    ExitError int
  | NumError string string
  | OtherError string
  | Errorf string "fmt_arg list"
and fmt_arg =
    ErrArg error
  | StrArg string
  | IntArg int

datatype signal = SIGTERM | SIGKILL

text \<open>
  Every call that leaves the Go process is recorded, in order, in a trace of events.
  Logging through \<open>slog\<close> and the diagnostic \<open>fmt.Printf\<close> lines are not modelled.
\<close>

datatype event =
    ExecPgrep string
  | OpenDevNull
  | CloseDevNull
  | CmdStart bool
  | Sleep int
  | ProcessKill nat
  | CmdWait nat
  | FindProcess int
  | ProcessSignal int signal
  | ExecIpfs "string list"
  | FileCreate string
  | FileWrite string string
  | FileClose string
  | FileRemove string
  | RandomRead nat
  | FileStat string
  | Download string string
  | MkdirAll string
  | ExtractTarGzip string string
  | Chmod string

text \<open>
  The answers of the operating system are the fields of an environment: what
  \<open>pgrep -x name\<close> exits with and prints, whether \<open>/dev/null\<close> opens, whether the
  daemon command starts (and with which process id), what killing, waiting for, finding
  and signalling a process return, what an \<open>ipfs\<close> invocation prints and exits with,
  what the file operations return, which bytes the random source delivers, and what
  the download and the extraction of the archive return (the size, the list of files
  or \<open>nil\<close>, and the error).
\<close>

record os_env =
  pgrep_run :: "string \<Rightarrow> error option \<times> string"
  open_devnull :: "error option"
  cmd_start :: "bool \<Rightarrow> error + nat"
  process_kill :: "nat \<Rightarrow> error option"
  cmd_wait :: "nat \<Rightarrow> error option"
  find_process :: "int \<Rightarrow> error option"
  process_signal :: "int \<Rightarrow> signal \<Rightarrow> error option"
  ipfs_combined_output :: "string list \<Rightarrow> string \<times> error option"
  file_create :: "string \<Rightarrow> error option"
  file_write :: "string \<Rightarrow> string \<Rightarrow> error option"
  file_close :: "string \<Rightarrow> error option"
  file_remove :: "string \<Rightarrow> error option"
  random_read :: "nat \<Rightarrow> 8 word list"
  file_stat :: "string \<Rightarrow> error option"
  download_file :: "string \<Rightarrow> string \<Rightarrow> error option"
  mkdir_all :: "string \<Rightarrow> error option"
  extract_tar_gzip :: "string \<Rightarrow> string \<Rightarrow> int \<times> string list option \<times> error option"

section \<open>The standard-library string functions the wrapper calls\<close>

text \<open>
  \<open>unicode.IsSpace\<close> on the bytes of a string: \<open>spaceWidth s\<close> is the number of bytes
  of the white-space rune that starts \<open>s\<close>, and \<open>0\<close> when \<open>s\<close> does not start with one.
  The white-space runes are U+0009..U+000D, U+0020, U+0085, U+00A0, U+1680,
  U+2000..U+200A, U+2028, U+2029, U+202F, U+205F and U+3000, here in UTF-8.
\<close>

fun spaceWidth :: "string \<Rightarrow> nat" where
  "spaceWidth [] = 0"
| "spaceWidth (c # cs) =
    (let b0 = (of_char c :: nat); bs = (map of_char (take 2 cs) :: nat list) in
     if b0 \<in> {0x09, 0x0A, 0x0B, 0x0C, 0x0D, 0x20} then 1
     else if b0 = 0xC2 \<and> take 1 bs \<in> {[0x85], [0xA0]} then 2
     else if b0 = 0xE1 \<and> bs = [0x9A, 0x80] then 3
     else if b0 = 0xE2 \<and> length bs = 2 \<and> hd bs = 0x80
              \<and> (last bs \<in> {0x80 ..< 0x8B} \<or> last bs \<in> {0xA8, 0xA9, 0xAF}) then 3
     else if b0 = 0xE2 \<and> bs = [0x81, 0x9F] then 3
     else if b0 = 0xE3 \<and> bs = [0x80, 0x80] then 3
     else 0)"

text \<open>
  \<open>strings.Fields\<close>: the maximal runs of bytes between white-space runes, in order.
  \<open>FieldsFrom cur s\<close> carries the field that is being read.
\<close>

function FieldsFrom :: "string \<Rightarrow> string \<Rightarrow> string list" where
  "FieldsFrom cur [] = (if cur = [] then [] else [cur])"
| "FieldsFrom cur (c # cs) =
    (if 0 < spaceWidth (c # cs)
     then (if cur = [] then [] else [cur]) @ FieldsFrom [] (drop (spaceWidth (c # cs)) (c # cs))
     else FieldsFrom (cur @ [c]) cs)"
  by pat_completeness auto
termination
  by (relation "measure (\<lambda>(cur, s). length s)") auto

definition Fields :: "string \<Rightarrow> string list" where
  "Fields s = FieldsFrom [] s"

text \<open>
  \<open>strings.TrimSpace\<close>: white-space runes are cut from the front, then from the back.
  \<open>spaceWidthEnd s\<close> is the number of bytes of the white-space rune that ends \<open>s\<close>,
  found in its last one, two or three bytes.
\<close>

function trimLeft :: "string \<Rightarrow> string" where
  "trimLeft [] = []"
| "trimLeft (c # cs) =
    (if 0 < spaceWidth (c # cs) then trimLeft (drop (spaceWidth (c # cs)) (c # cs)) else c # cs)"
  by pat_completeness auto
termination
  by (relation "measure length") auto

definition spaceWidthEnd :: "string \<Rightarrow> nat" where
  "spaceWidthEnd s =
    (if s \<noteq> [] \<and> spaceWidth [last s] = 1 then 1
     else if 2 \<le> length s \<and> spaceWidth (drop (length s - 2) s) = 2 then 2
     else if 3 \<le> length s \<and> spaceWidth (drop (length s - 3) s) = 3 then 3
     else 0)"

function trimRight :: "string \<Rightarrow> string" where
  "trimRight s =
    (if 0 < spaceWidthEnd s then trimRight (take (length s - spaceWidthEnd s) s) else s)"
  by pat_completeness auto
termination
  by (relation "measure length") (auto simp: spaceWidthEnd_def split: if_splits)

definition TrimSpace :: "string \<Rightarrow> string" where
  "TrimSpace s = trimRight (trimLeft s)"

text \<open>\<open>strings.Contains s substr\<close>: \<open>substr\<close> occurs in \<open>s\<close> as a run of bytes.\<close>

fun Contains :: "string \<Rightarrow> string \<Rightarrow> bool" where
  "Contains [] substr = (substr = [])"
| "Contains (c # cs) substr = (take (length substr) (c # cs) = substr \<or> Contains cs substr)"

text \<open>
  \<open>strconv.Atoi\<close> for a 64-bit \<open>int\<close>: an optional sign, then decimal digits only; the
  value has to fit into 64 bits.
\<close>

definition isDigit :: "char \<Rightarrow> bool" where
  "isDigit c = (48 \<le> (of_char c :: nat) \<and> (of_char c :: nat) \<le> 57)"

definition digitsValue :: "string \<Rightarrow> int" where
  "digitsValue ds = foldl (\<lambda>n ch. n * 10 + (int (of_char ch) - 48)) 0 ds"

definition Atoi :: "string \<Rightarrow> error + int" where
  "Atoi s =
    (let signed = (s \<noteq> [] \<and> (hd s = CHR ''-'' \<or> hd s = CHR ''+''));
         digits = (if signed then tl s else s);
         n = (if signed \<and> hd s = CHR ''-'' then - digitsValue digits else digitsValue digits)
     in if digits = [] \<or> \<not> list_all isDigit digits
        then Inl (NumError ''Atoi'' s)
        else if n < - (2 ^ 63) \<or> 2 ^ 63 - 1 < n
        then Inl (NumError ''Atoi'' s)
        else Inr n)"

section \<open>Process lookup and termination (package oskit)\<close>

text \<open>
  \<open>IsProgramRunning\<close> runs \<open>pgrep -x programName\<close>.  Exit status 1 means that no
  process matched; any other failure of the run is returned; otherwise the program runs
  exactly when the output is more than white space.
\<close>

definition IsProgramRunning ::
  "os_env \<Rightarrow> string \<Rightarrow> event list \<Rightarrow> (bool \<times> error option) \<times> event list" where
  "IsProgramRunning env programName tr =
    (let (err, out) = pgrep_run env programName;
         tr1 = tr @ [ExecPgrep programName]
     in case err of
          Some (ExitError code) \<Rightarrow>
            if code = 1 then ((False, None), tr1) else ((False, Some (ExitError code)), tr1)
        | Some e \<Rightarrow> ((False, Some e), tr1)
        | None \<Rightarrow> ((TrimSpace out \<noteq> [], None), tr1))"

text \<open>
  The loop of \<open>TerminateProgram\<close> over the process ids \<open>pgrep\<close> printed: a token that
  is no integer and a process that cannot be found end the loop with an error; a signal
  that cannot be delivered is only reported, and the loop goes on.
\<close>

fun terminateLoop :: "os_env \<Rightarrow> string list \<Rightarrow> event list \<Rightarrow> error option \<times> event list" where
  "terminateLoop env [] tr = (None, tr)"
| "terminateLoop env (pidStr # rest) tr =
    (case Atoi pidStr of
       Inl err \<Rightarrow> (Some (Errorf ''Failed to parse PID: %v\<newline>'' [ErrArg err]), tr)
     | Inr pid \<Rightarrow>
        (case find_process env pid of
           Some err \<Rightarrow>
             (Some (Errorf ''Failed to find process with PID %d: %v\<newline>'' [IntArg pid, ErrArg err]),
              tr @ [FindProcess pid])
         | None \<Rightarrow>
            (case process_signal env pid SIGTERM of
               Some err \<Rightarrow> terminateLoop env rest (tr @ [FindProcess pid, ProcessSignal pid SIGTERM])
             | None \<Rightarrow> terminateLoop env rest (tr @ [FindProcess pid, ProcessSignal pid SIGTERM]))))"

definition TerminateProgram ::
  "os_env \<Rightarrow> string \<Rightarrow> event list \<Rightarrow> error option \<times> event list" where
  "TerminateProgram env processName tr =
    (let (err, out) = pgrep_run env processName;
         tr1 = tr @ [ExecPgrep processName]
     in case err of
          Some e \<Rightarrow> (Some (Errorf ''Failed to find process: %v\<newline>'' [ErrArg e]), tr1)
        | None \<Rightarrow> terminateLoop env (Fields out) tr1)"

section \<open>The daemon supervisor\<close>

text \<open>
  The fields of \<open>ipfsCliWrapper\<close> that the lifecycle functions read or write.  Of the
  \<open>exec.Cmd\<close> in \<open>ipfsDaemonCmd\<close> three things matter: whether \<open>SysProcAttr.Setsid\<close>
  has been set, whether the standard streams have been pointed at \<open>/dev/null\<close>, and
  the \<open>Process\<close> field, which is \<open>nil\<close> until \<open>Start\<close> has succeeded.  The warm-up
  duration is a \<open>time.Duration\<close>, in nanoseconds.
\<close>

record ipfsCliWrapper =
  isDaemonRunning :: bool
  isDaemonRunningContinously :: bool
  daemonInitialWarmupDuration :: int
  os :: string
  arch :: string
  cmd_setsid :: bool
  cmd_devnull :: bool
  cmd_process :: "nat option"

text \<open>The struct literal of \<open>NewWrapper\<close>, before any option is applied.\<close>

definition initialWrapper :: "string \<Rightarrow> string \<Rightarrow> ipfsCliWrapper" where
  "initialWrapper osName archName =
    \<lparr> isDaemonRunning = False,
      isDaemonRunningContinously = False,
      daemonInitialWarmupDuration = 5 * 1000000000,
      os = osName,
      arch = archName,
      cmd_setsid = False,
      cmd_devnull = False,
      cmd_process = None \<rparr>"

text \<open>\<open>WithContinousOperation\<close>, the option that selects continuous mode.\<close>

definition WithContinousOperation :: "ipfsCliWrapper \<Rightarrow> ipfsCliWrapper" where
  "WithContinousOperation wrap = wrap\<lparr>isDaemonRunningContinously := True\<rparr>"

text \<open>
  The tail of \<open>StartDaemonInBackground\<close>: start the command, set the flag, sleep.
  \<open>closing\<close> holds the deferred \<open>devNull.Close()\<close> of continuous mode, which runs
  when the function returns.
\<close>

definition startCommand ::
  "os_env \<Rightarrow> ipfsCliWrapper \<Rightarrow> event list \<Rightarrow> event list \<Rightarrow>
   error option \<times> ipfsCliWrapper \<times> event list" where
  "startCommand env wrap closing tr =
    (let tr1 = tr @ [CmdStart (cmd_setsid wrap)]
     in case cmd_start env (cmd_setsid wrap) of
          Inl err \<Rightarrow>
            (Some (Errorf ''Error starting command: %v\<newline>'' [ErrArg err]), wrap, tr1 @ closing)
        | Inr pid \<Rightarrow>
            (None,
             wrap\<lparr>cmd_process := Some pid, isDaemonRunning := True\<rparr>,
             tr1 @ [Sleep (daemonInitialWarmupDuration wrap)] @ closing))"

definition StartDaemonInBackground ::
  "os_env \<Rightarrow> ipfsCliWrapper \<Rightarrow> event list \<Rightarrow> error option \<times> ipfsCliWrapper \<times> event list" where
  "StartDaemonInBackground env wrap tr =
    (let ((isRunningAlready, err), tr1) = IsProgramRunning env ''ipfs'' tr
     in if isRunningAlready then (None, wrap\<lparr>isDaemonRunning := True\<rparr>, tr1)
        else case err of
          Some e \<Rightarrow> (Some (Errorf ''is program running error: %v'' [ErrArg e]), wrap, tr1)
        | None \<Rightarrow>
            if isDaemonRunningContinously wrap
            then (let wrap1 = wrap\<lparr>cmd_setsid := True\<rparr>;
                      tr2 = tr1 @ [OpenDevNull]
                  in case open_devnull env of
                       Some e \<Rightarrow> (Some e, wrap1, tr2)
                     | None \<Rightarrow> startCommand env (wrap1\<lparr>cmd_devnull := True\<rparr>) [CloseDevNull] tr2)
            else startCommand env wrap [] tr1)"

text \<open>
  \<open>ShutdownDaemon\<close> and \<open>ForceShutdownDaemon\<close> return an error value, or panic:
  \<open>wrap.ipfsDaemonCmd.Process.Kill()\<close> dereferences \<open>Process\<close>, which is \<open>nil\<close> when
  this handle never started a child.
\<close>

datatype shutdown_result = Returned "error option" | NilPointerPanic

definition ShutdownDaemon ::
  "os_env \<Rightarrow> ipfsCliWrapper \<Rightarrow> event list \<Rightarrow> shutdown_result \<times> ipfsCliWrapper \<times> event list" where
  "ShutdownDaemon env wrap tr =
    (if isDaemonRunningContinously wrap then (Returned None, wrap, tr)
     else
       (let wrap1 = wrap\<lparr>isDaemonRunning := False\<rparr>
        in case cmd_process wrap1 of
             None \<Rightarrow> (NilPointerPanic, wrap1, tr)
           | Some pid \<Rightarrow>
              (let tr1 = tr @ [ProcessKill pid]
               in case process_kill env pid of
                    Some killErr \<Rightarrow>
                      (Returned (Some (Errorf ''Error killing process: %v\<newline>'' [ErrArg killErr])),
                       wrap1, tr1)
                  | None \<Rightarrow>
                     (let tr2 = tr1 @ [CmdWait pid]
                      in case cmd_wait env pid of
                           None \<Rightarrow> (Returned None, wrap1, tr2)
                         | Some (ExitError code) \<Rightarrow>
                             if code = - 1 then (Returned None, wrap1, tr2)
                             else (Returned (Some (Errorf ''Command exited with error: %v\<newline>''
                                                     [ErrArg (ExitError code)])), wrap1, tr2)
                         | Some waitErr \<Rightarrow>
                             (Returned (Some (Errorf ''Command exited with error: %v\<newline>''
                                                [ErrArg waitErr])), wrap1, tr2)))))"

definition ForceShutdownDaemon ::
  "os_env \<Rightarrow> ipfsCliWrapper \<Rightarrow> event list \<Rightarrow> shutdown_result \<times> ipfsCliWrapper \<times> event list" where
  "ForceShutdownDaemon env wrap tr =
    (if isDaemonRunningContinously wrap
     then (let wrap1 = wrap\<lparr>isDaemonRunning := False\<rparr>;
               (err, tr1) = TerminateProgram env ''ipfs'' tr
           in (Returned err, wrap1, tr1))
     else ShutdownDaemon env wrap tr)"

section \<open>The command adapter\<close>

text \<open>
  The scan of \<open>AddFile\<close> over the fields of the output, with its three variables: once
  \<open>cid\<close> is not empty the next field is the file name and the loop ends; once a field
  containing \<open>added\<close> has been seen the next field is the \<open>cid\<close>.  The result is the
  pair of \<open>filename\<close> and \<open>cid\<close>.
\<close>

fun addFileScan :: "string list \<Rightarrow> string \<Rightarrow> string \<Rightarrow> bool \<Rightarrow> string \<times> string" where
  "addFileScan [] filename cid foundAddedText = (filename, cid)"
| "addFileScan (part # rest) filename cid foundAddedText =
    (if cid \<noteq> [] then (part, cid)
     else if foundAddedText then addFileScan rest filename part foundAddedText
     else if Contains part ''added'' then addFileScan rest filename cid True
     else addFileScan rest filename cid foundAddedText)"

text \<open>
  \<open>AddFile\<close> of the unexported \<open>ipfsCliWrapper\<close> (it passes \<open>--cid-version=1\<close>) and
  \<open>AddFile\<close> of \<open>commands.go\<close> (it does not).  Both return the pair of the content
  identifier and the error.
\<close>

definition addFileWith ::
  "os_env \<Rightarrow> string list \<Rightarrow> event list \<Rightarrow> (string \<times> error option) \<times> event list" where
  "addFileWith env args tr =
    (let (output, err) = ipfs_combined_output env args;
         tr1 = tr @ [ExecIpfs args]
     in case err of
          Some e \<Rightarrow>
            (([], Some (Errorf ''failed to add file to ipfs: %v, output: %s'' [ErrArg e, StrArg output])),
             tr1)
        | None \<Rightarrow> ((snd (addFileScan (Fields output) [] [] False), None), tr1))"

definition AddFile ::
  "os_env \<Rightarrow> string \<Rightarrow> event list \<Rightarrow> (string \<times> error option) \<times> event list" where
  "AddFile env filepath tr = addFileWith env [''add'', filepath, ''--cid-version=1''] tr"

definition AddFile_commands ::
  "os_env \<Rightarrow> string \<Rightarrow> event list \<Rightarrow> (string \<times> error option) \<times> event list" where
  "AddFile_commands env filepath tr = addFileWith env [''add'', filepath] tr"

text \<open>
  \<open>randomkit.String n\<close>: \<open>n\<close> bytes of the random source, each mapped into the
  62 alphanumeric characters.  Bytes the source did not deliver stay zero.
\<close>

definition alphanum :: string where
  "alphanum = ''0123456789ABCDEFGHIJKLMNOPQRSTUVWXYZabcdefghijklmnopqrstuvwxyz''"

definition randomkit_String :: "os_env \<Rightarrow> nat \<Rightarrow> string" where
  "randomkit_String env n =
    map (\<lambda>b. alphanum ! (unat b mod length alphanum))
        (take n (random_read env n @ replicate n 0))"

text \<open>
  The steps \<open>os.Create\<close>, \<open>Write\<close> and \<open>Close\<close> that both variants of
  \<open>AddFileContent\<close> begin with: the first error is returned at once.
\<close>

definition writeTempFile ::
  "os_env \<Rightarrow> string \<Rightarrow> string \<Rightarrow> event list \<Rightarrow> error option \<times> event list" where
  "writeTempFile env filepath content tr =
    (let tr1 = tr @ [FileCreate filepath]
     in case file_create env filepath of
          Some err \<Rightarrow> (Some err, tr1)
        | None \<Rightarrow>
           (let tr2 = tr1 @ [FileWrite filepath content]
            in case file_write env filepath content of
                 Some err \<Rightarrow> (Some err, tr2)
               | None \<Rightarrow>
                  (let tr3 = tr2 @ [FileClose filepath]
                   in case file_close env filepath of
                        Some err \<Rightarrow> (Some err, tr3)
                      | None \<Rightarrow> (None, tr3))))"

text \<open>
  \<open>AddFileContent\<close> of the unexported \<open>ipfsCliWrapper\<close>.  The content is \<open>None\<close> for
  a \<open>nil\<close> slice.  The removal of the temporary file is deferred once the file has been
  closed, so it runs after \<open>AddFile\<close> whatever that returned; a failed removal is
  only logged.
\<close>

definition AddFileContent ::
  "os_env \<Rightarrow> string option \<Rightarrow> event list \<Rightarrow> (string \<times> error option) \<times> event list" where
  "AddFileContent env fileContent tr =
    (case fileContent of
       None \<Rightarrow> (([], Some (Errorf ''cannot have missing: %v'' [StrArg ''fileContent''])), tr)
     | Some content \<Rightarrow>
        (let filepath = ''./ipfscliwrapper_tempfile_'' @ randomkit_String env 5;
             (werr, tr1) = writeTempFile env filepath content (tr @ [RandomRead 5])
         in case werr of
              Some err \<Rightarrow> (([], Some err), tr1)
            | None \<Rightarrow>
               (let ((cid, err), tr2) = AddFile env filepath tr1;
                    tr3 = tr2 @ [FileRemove filepath]
                in case err of
                     Some e \<Rightarrow> (([], Some e), tr3)
                   | None \<Rightarrow> ((cid, None), tr3))))"

text \<open>
  \<open>AddFileContent\<close> of \<open>commands.go\<close>, which takes the file name from the caller.
  The file is removed after \<open>AddFile\<close> has succeeded; when the removal fails the
  function returns the empty identifier with \<open>err\<close>, which is \<open>nil\<close> at that point.
\<close>

definition AddFileContent_commands ::
  "os_env \<Rightarrow> string \<Rightarrow> string option \<Rightarrow> event list \<Rightarrow> (string \<times> error option) \<times> event list" where
  "AddFileContent_commands env filename fileContent tr =
    (if filename = [] then (([], Some (Errorf ''cannot have missing: %v'' [StrArg ''filename''])), tr)
     else case fileContent of
       None \<Rightarrow> (([], Some (Errorf ''cannot have missing: %v'' [StrArg ''fileContent''])), tr)
     | Some content \<Rightarrow>
        (let filepath = ''./'' @ filename;
             (werr, tr1) = writeTempFile env filepath content tr
         in case werr of
              Some err \<Rightarrow> (([], Some err), tr1)
            | None \<Rightarrow>
               (let ((cid, err), tr2) = AddFile_commands env filename tr1
                in case err of
                     Some e \<Rightarrow> (([], Some e), tr2)
                   | None \<Rightarrow>
                      (let tr3 = tr2 @ [FileRemove filepath]
                       in case file_remove env filepath of
                            Some rmErr \<Rightarrow> (([], err), tr3)
                          | None \<Rightarrow> ((cid, err), tr3)))))"

text \<open>
  The loops of \<open>ListPinsByType\<close>.  The inner loop compares the field with each of the
  three labels; its \<open>continue\<close> only goes on to the next label.  The outer loop keeps
  the field when no label matched, and resets the flag.
\<close>

definition ignorePartArr :: "string list" where
  "ignorePartArr = [''recursive'', ''indirect'', ''direct'']"

fun ignoreScan :: "string \<Rightarrow> string list \<Rightarrow> bool \<Rightarrow> bool" where
  "ignoreScan part [] ignoreFound = ignoreFound"
| "ignoreScan part (ignorePart # rest) ignoreFound =
    (if part = ignorePart then ignoreScan part rest True else ignoreScan part rest ignoreFound)"

fun pinScan :: "string list \<Rightarrow> string list \<Rightarrow> bool \<Rightarrow> string list" where
  "pinScan [] cids ignoreFound = cids"
| "pinScan (part # rest) cids ignoreFound =
    (if \<not> ignoreScan part ignorePartArr ignoreFound
     then pinScan rest (cids @ [part]) False
     else pinScan rest cids False)"

text \<open>
  \<open>ListPinsByType\<close>, the same in both files.  On an error the Go function returns the
  \<open>nil\<close> slice, here the empty list.
\<close>

definition ListPinsByType ::
  "os_env \<Rightarrow> string \<Rightarrow> event list \<Rightarrow> (string list \<times> error option) \<times> event list" where
  "ListPinsByType env typeID tr =
    (let args = [''pin'', ''ls'', ''--type='' @ typeID, ''--stream=true''];
         (output, err) = ipfs_combined_output env args;
         tr1 = tr @ [ExecIpfs args]
     in case err of
          Some e \<Rightarrow>
            (([], Some (Errorf ''failed to pin file content on ipfs: %v, output: %s''
                          [ErrArg e, StrArg output])), tr1)
        | None \<Rightarrow> ((pinScan (Fields output) [] False, None), tr1))"

section \<open>The download table\<close>

text \<open>
  \<open>urlsMap\<close>, the map from operating system to the map from architecture to URL, as
  association lists in the order of the source.
\<close>

definition urlsMap :: "(string \<times> (string \<times> string) list) list" where
  "urlsMap =
    [(''darwin'',
       [(''arm64'', ''https://dist.ipfs.tech/kubo/v0.29.0/kubo_v0.29.0_darwin-arm64.tar.gz''),
        (''amd64'', ''https://dist.ipfs.tech/kubo/v0.29.0/kubo_v0.29.0_darwin-amd64.tar.gz'')]),
     (''linux'',
       [(''arm'', ''https://dist.ipfs.tech/kubo/v0.29.0/kubo_v0.29.0_linux-arm.tar.gz''),
        (''arm64'', ''https://dist.ipfs.tech/kubo/v0.29.0/kubo_v0.29.0_linux-arm64.tar.gz''),
        (''386'', ''https://dist.ipfs.tech/kubo/v0.29.0/kubo_v0.29.0_linux-386.tar.gz''),
        (''amd64'', ''https://dist.ipfs.tech/kubo/v0.29.0/kubo_v0.29.0_linux-amd64.tar.gz'')]),
     (''freebsd'',
       [(''arm'', ''https://dist.ipfs.tech/kubo/v0.29.0/kubo_v0.29.0_freebsd-arm.tar.gz''),
        (''386'', ''https://dist.ipfs.tech/kubo/v0.29.0/kubo_v0.29.0_freebsd-386.tar.gz''),
        (''amd64'', ''https://dist.ipfs.tech/kubo/v0.29.0/kubo_v0.29.0_freebsd-amd64.tar.gz'')]),
     (''openbsd'',
       [(''arm'', ''https://dist.ipfs.tech/kubo/v0.29.0/kubo_v0.29.0_openbsd-arm.tar.gz''),
        (''386'', ''https://dist.ipfs.tech/kubo/v0.29.0/kubo_v0.29.0_openbsd-386.tar.gz''),
        (''amd64'', ''https://dist.ipfs.tech/kubo/v0.29.0/kubo_v0.29.0_openbsd-amd64.tar.gz'')]),
     (''windows'',
       [(''arm'', ''https://dist.ipfs.tech/kubo/v0.29.0/kubo_v0.29.0_windows-arm64.zip''),
        (''386'', ''https://dist.ipfs.tech/kubo/v0.29.0/kubo_v0.29.0_windows-386.zip''),
        (''amd64'', ''https://dist.ipfs.tech/kubo/v0.29.0/kubo_v0.29.0_windows-amd64.zip'')])]"

text \<open>
  \<open>table[os][arch]\<close> with the comma-ok form: a missing operating system gives the
  \<open>nil\<close> inner map, in which every lookup misses.
\<close>

definition lookup2 :: "(string \<times> (string \<times> string) list) list \<Rightarrow> string \<Rightarrow> string \<Rightarrow> string option" where
  "lookup2 table osName archName =
    (case map_of table osName of
       None \<Rightarrow> None
     | Some inner \<Rightarrow> map_of inner archName)"

text \<open>
  \<open>getDownloadURL\<close> calls nothing outside the Go process: it takes no environment and
  no trace, and returns the pair of the URL and the error.
\<close>

definition getDownloadURL :: "string \<Rightarrow> string \<Rightarrow> string \<times> error option" where
  "getDownloadURL osName archName =
    (case lookup2 urlsMap osName archName of
       None \<Rightarrow>
         ([], Some (Errorf
            ''could not find downloadable link for operating system `%s` and architecture `%s`''
            [StrArg osName, StrArg archName]))
     | Some val \<Rightarrow> (val, None))"

text \<open>The (operating system, architecture) pairs that have an entry in a table.\<close>

definition tablePairs :: "(string \<times> (string \<times> string) list) list \<Rightarrow> (string \<times> string) list" where
  "tablePairs table = concat (map (\<lambda>(osName, inner). map (\<lambda>(archName, url). (osName, archName)) inner) table)"

section \<open>Provisioning the binary\<close>

definition IPFSBinaryFilePath :: string where
  "IPFSBinaryFilePath = ''./bin/kubo/ipfs''"

definition IPFSDataDirPath :: string where
  "IPFSDataDirPath = ''./bin/kubo/data''"

definition zippedBinaryFilePath :: string where
  "zippedBinaryFilePath = ''./bin/ipfs.tar.gz''"

text \<open>
  \<open>downloadAndUnzip\<close> returns an error value, or ends the whole program through
  \<open>log.Fatal\<close>.  Its first part fetches the archive unless a file is already at the
  archive path: only then is the URL looked up.
\<close>

datatype provision_result = Provisioned "error option" | LogFatal

definition fetchArchive ::
  "os_env \<Rightarrow> string \<Rightarrow> string \<Rightarrow> event list \<Rightarrow> error option \<times> event list" where
  "fetchArchive env osName archName tr =
    (let tr1 = tr @ [FileStat zippedBinaryFilePath]
     in case file_stat env zippedBinaryFilePath of
          None \<Rightarrow> (None, tr1)
        | Some statErr \<Rightarrow>
           (case getDownloadURL osName archName of
              (url, Some err) \<Rightarrow>
                (Some (Errorf ''failed finding download link: %v'' [ErrArg err]), tr1)
            | (url, None) \<Rightarrow>
               (let tr2 = tr1 @ [Download url zippedBinaryFilePath]
                in case download_file env url zippedBinaryFilePath of
                     Some downloadErr \<Rightarrow>
                       (Some (Errorf ''failed downloading the binary: %v'' [ErrArg downloadErr]), tr2)
                   | None \<Rightarrow> (None, tr2))))"

definition downloadAndUnzip ::
  "os_env \<Rightarrow> string \<Rightarrow> string \<Rightarrow> event list \<Rightarrow> provision_result \<times> event list" where
  "downloadAndUnzip env osName archName tr =
    (case fetchArchive env osName archName tr of
       (Some err, tr1) \<Rightarrow> (Provisioned (Some err), tr1)
     | (None, tr1) \<Rightarrow>
        (let tr2 = tr1 @ [MkdirAll ''./bin/kubo'']
         in case mkdir_all env ''./bin/kubo'' of
              Some err \<Rightarrow> (LogFatal, tr2)
            | None \<Rightarrow>
               (let tr3 = tr2 @ [MkdirAll IPFSDataDirPath]
                in case mkdir_all env IPFSDataDirPath of
                     Some err \<Rightarrow> (LogFatal, tr3)
                   | None \<Rightarrow>
                      (let tr4 = tr3 @ [ExtractTarGzip zippedBinaryFilePath ''bin'']
                       in case extract_tar_gzip env zippedBinaryFilePath ''bin'' of
                            (written, files, Some err) \<Rightarrow> (LogFatal, tr4)
                          | (written, None, None) \<Rightarrow> (LogFatal, tr4)
                          | (written, Some extracted, None) \<Rightarrow>
                             (let tr5 = tr4 @ [FileRemove zippedBinaryFilePath]
                              in case file_remove env zippedBinaryFilePath of
                                   Some err \<Rightarrow>
                                     (Provisioned (Some (Errorf ''failed deleting zip: %v'' [ErrArg err])), tr5)
                                 | None \<Rightarrow> (Provisioned None, tr5 @ [Chmod IPFSBinaryFilePath]))))))"

section \<open>Concrete environments\<close>

text \<open>
  An operating system on which nothing fails: no process is called \<open>ipfs\<close>
  (\<open>pgrep\<close> exits with status 1), the daemon starts as process 4242 and dies by the
  kill signal, \<open>ipfs\<close> prints nothing, and no file exists yet.  The other
  environments differ from it in one answer.
\<close>

definition quietEnv :: os_env where
  "quietEnv =
    \<lparr> pgrep_run = (\<lambda>name. (Some (ExitError 1), [])),
      open_devnull = None,
      cmd_start = (\<lambda>setsid. Inr 4242),
      process_kill = (\<lambda>pid. None),
      cmd_wait = (\<lambda>pid. Some (ExitError (- 1))),
      find_process = (\<lambda>pid. None),
      process_signal = (\<lambda>pid sig. None),
      ipfs_combined_output = (\<lambda>args. ([], None)),
      file_create = (\<lambda>path. None),
      file_write = (\<lambda>path content. None),
      file_close = (\<lambda>path. None),
      file_remove = (\<lambda>path. None),
      random_read = (\<lambda>n. replicate n 0),
      file_stat = (\<lambda>path. Some (OtherError ''no such file or directory'')),
      download_file = (\<lambda>url path. None),
      mkdir_all = (\<lambda>path. None),
      extract_tar_gzip = (\<lambda>path dir. (1, Some [''bin/kubo/ipfs''], None)) \<rparr>"

definition pgrepAnswers :: "error option \<times> string \<Rightarrow> os_env" where
  "pgrepAnswers answer = quietEnv\<lparr>pgrep_run := (\<lambda>name. answer)\<rparr>"

definition startAnswers :: "error + nat \<Rightarrow> os_env" where
  "startAnswers answer = quietEnv\<lparr>cmd_start := (\<lambda>setsid. answer)\<rparr>"

definition waitAnswers :: "error option \<Rightarrow> os_env" where
  "waitAnswers answer = quietEnv\<lparr>cmd_wait := (\<lambda>pid. answer)\<rparr>"

definition statAnswers :: "error option \<Rightarrow> os_env" where
  "statAnswers answer = quietEnv\<lparr>file_stat := (\<lambda>path. answer)\<rparr>"

definition ipfsAnswers :: "string \<times> error option \<Rightarrow> os_env" where
  "ipfsAnswers answer = quietEnv\<lparr>ipfs_combined_output := (\<lambda>args. answer)\<rparr>"

section \<open>Facts about the string functions and the scans\<close>

lemma FieldsFrom_no_empty: "[] \<notin> set (FieldsFrom cur s)"
  by (induction cur s rule: FieldsFrom.induct) auto

lemma Fields_no_empty: "[] \<notin> set (Fields s)"
  by (simp add: Fields_def FieldsFrom_no_empty)

lemma ignoreScan_eq: "ignoreScan part labels ignoreFound = (ignoreFound \<or> part \<in> set labels)"
  by (induction labels arbitrary: ignoreFound) auto

lemma pinScan_eq:
  "pinScan parts cids False = cids @ filter (\<lambda>part. part \<notin> set ignorePartArr) parts"
  by (induction parts arbitrary: cids) (simp_all add: ignoreScan_eq)

lemma addFileScan_found:
  "[] \<notin> set parts \<Longrightarrow>
   snd (addFileScan parts filename [] True) = (case parts of [] \<Rightarrow> [] | c # _ \<Rightarrow> c)"
  by (cases parts; cases "tl parts") auto

lemma addFileScan_eq:
  "[] \<notin> set parts \<Longrightarrow>
   snd (addFileScan parts filename [] False) =
     (case dropWhile (\<lambda>part. \<not> Contains part ''added'') parts of
        marker # c # rest \<Rightarrow> c
      | _ \<Rightarrow> [])"
proof (induction parts)
  case Nil
  then show ?case by simp
next
  case (Cons part rest)
  show ?case
  proof (cases "Contains part ''added''")
    case True
    from Cons.prems have "[] \<notin> set rest" by simp
    then have "snd (addFileScan rest filename [] True) = (case rest of [] \<Rightarrow> [] | c # _ \<Rightarrow> c)"
      by (rule addFileScan_found)
    with True show ?thesis by (simp split: list.splits)
  next
    case False
    with Cons show ?thesis by simp
  qed
qed

section \<open>Facts about process termination\<close>

lemma terminateLoop_signals_all:
  assumes "map Atoi pidStrs = map Inr pids"
    and "\<forall>p\<in>set pids. find_process env p = None"
  shows "terminateLoop env pidStrs tr =
           (None, tr @ concat (map (\<lambda>p. [FindProcess p, ProcessSignal p SIGTERM]) pids))"
  using assms
proof (induction pidStrs arbitrary: pids tr)
  case Nil
  then show ?case by simp
next
  case (Cons pidStr rest)
  then obtain p ps where pids: "pids = p # ps" and p: "Atoi pidStr = Inr p"
    and ps: "map Atoi rest = map Inr ps"
    by (cases pids) auto
  from Cons.prems(2) pids have found: "find_process env p = None"
    and others: "\<forall>q\<in>set ps. find_process env q = None"
    by simp_all
  have "terminateLoop env (pidStr # rest) tr =
          terminateLoop env rest (tr @ [FindProcess p, ProcessSignal p SIGTERM])"
    by (simp add: p found split: option.splits)
  also have "\<dots> = (None, (tr @ [FindProcess p, ProcessSignal p SIGTERM]) @
                        concat (map (\<lambda>p. [FindProcess p, ProcessSignal p SIGTERM]) ps))"
    by (rule Cons.IH [OF ps others])
  finally show ?case by (simp add: pids)
qed

lemma terminateLoop_events:
  "\<exists>evs. snd (terminateLoop env pidStrs tr) = tr @ evs
       \<and> (\<forall>ev\<in>set evs. (\<exists>p. ev = FindProcess p) \<or> (\<exists>p. ev = ProcessSignal p SIGTERM))"
proof (induction pidStrs arbitrary: tr)
  case Nil
  then show ?case by simp
next
  case (Cons pidStr rest)
  show ?case
  proof (cases "Atoi pidStr")
    case (Inl err)
    then show ?thesis by simp
  next
    case (Inr p)
    show ?thesis
    proof (cases "find_process env p")
      case (Some err)
      with Inr show ?thesis by simp
    next
      case None
      from Cons.IH [of "tr @ [FindProcess p, ProcessSignal p SIGTERM]"]
      obtain evs where
        evs: "snd (terminateLoop env rest (tr @ [FindProcess p, ProcessSignal p SIGTERM])) =
                (tr @ [FindProcess p, ProcessSignal p SIGTERM]) @ evs"
        and only: "\<forall>ev\<in>set evs. (\<exists>p. ev = FindProcess p) \<or> (\<exists>p. ev = ProcessSignal p SIGTERM)"
        by blast
      have "snd (terminateLoop env (pidStr # rest) tr) =
              tr @ ([FindProcess p, ProcessSignal p SIGTERM] @ evs)"
        using Inr None evs by (simp split: option.splits)
      moreover have "\<forall>ev\<in>set ([FindProcess p, ProcessSignal p SIGTERM] @ evs).
                       (\<exists>p. ev = FindProcess p) \<or> (\<exists>p. ev = ProcessSignal p SIGTERM)"
        using only by auto
      ultimately show ?thesis by blast
    qed
  qed
qed

lemma TerminateProgram_signals_all:
  assumes "pgrep_run env processName = (None, out)"
    and "map Atoi (Fields out) = map Inr pids"
    and "\<forall>p\<in>set pids. find_process env p = None"
  shows "TerminateProgram env processName tr =
           (None, tr @ ExecPgrep processName #
                    concat (map (\<lambda>p. [FindProcess p, ProcessSignal p SIGTERM]) pids))"
  using assms(1) terminateLoop_signals_all [OF assms(2,3)]
  by (simp add: TerminateProgram_def)

lemma TerminateProgram_events:
  "\<exists>evs. snd (TerminateProgram env processName tr) = tr @ evs
       \<and> (\<forall>ev\<in>set evs. ev = ExecPgrep processName \<or> (\<exists>p. ev = FindProcess p)
                          \<or> (\<exists>p. ev = ProcessSignal p SIGTERM))"
proof -
  obtain err out where pg: "pgrep_run env processName = (err, out)"
    by (cases "pgrep_run env processName") auto
  show ?thesis
  proof (cases err)
    case None
    from terminateLoop_events [of env "Fields out" "tr @ [ExecPgrep processName]"]
    obtain evs where
      evs: "snd (terminateLoop env (Fields out) (tr @ [ExecPgrep processName])) =
              (tr @ [ExecPgrep processName]) @ evs"
      and only: "\<forall>ev\<in>set evs. (\<exists>p. ev = FindProcess p) \<or> (\<exists>p. ev = ProcessSignal p SIGTERM)"
      by blast
    have "snd (TerminateProgram env processName tr) = tr @ (ExecPgrep processName # evs)"
      using None evs by (simp add: TerminateProgram_def pg)
    moreover have "\<forall>ev\<in>set (ExecPgrep processName # evs). ev = ExecPgrep processName
                     \<or> (\<exists>p. ev = FindProcess p) \<or> (\<exists>p. ev = ProcessSignal p SIGTERM)"
      using only by auto
    ultimately show ?thesis by blast
  next
    case (Some e)
    then have "snd (TerminateProgram env processName tr) = tr @ [ExecPgrep processName]"
      by (simp add: TerminateProgram_def pg)
    then show ?thesis by simp
  qed
qed

section \<open>Facts about the temporary file and the download table\<close>

text \<open>
  \<open>AddFileContent\<close> of the unexported wrapper, once the temporary file has been written
  and closed: the removal of that file is the last event, whatever \<open>AddFile\<close>
  returned.
\<close>

lemma AddFileContent_removes_after_AddFile:
  assumes "filepath = ''./ipfscliwrapper_tempfile_'' @ randomkit_String env 5"
    and "writeTempFile env filepath content (tr @ [RandomRead 5]) = (None, tr1)"
  shows "snd (AddFileContent env (Some content) tr) =
           snd (AddFile env filepath tr1) @ [FileRemove filepath]"
  using assms
  by (simp add: AddFileContent_def Let_def split: prod.splits option.splits)

lemma lookup2_in_tablePairs:
  assumes "lookup2 table osName archName = Some url"
  shows "(osName, archName) \<in> set (tablePairs table)"
proof -
  from assms obtain inner where inner: "map_of table osName = Some inner"
    and url: "map_of inner archName = Some url"
    by (auto simp: lookup2_def split: option.splits)
  from inner have "(osName, inner) \<in> set table" by (rule map_of_SomeD)
  moreover from url have "(archName, url) \<in> set inner" by (rule map_of_SomeD)
  ultimately show ?thesis by (force simp: tablePairs_def)
qed

lemma tablePairs_in_lookup2:
  assumes "distinct (map fst table)"
    and "(osName, archName) \<in> set (tablePairs table)"
  shows "\<exists>inner url. (osName, inner) \<in> set table \<and> (archName, url) \<in> set inner
           \<and> lookup2 table osName archName = Some url"
proof -
  from assms(2) obtain inner url0 where inner: "(osName, inner) \<in> set table"
    and arch: "(archName, url0) \<in> set inner"
    by (auto simp: tablePairs_def)
  from assms(1) inner have m: "map_of table osName = Some inner" by simp
  from arch have "archName \<in> fst ` set inner" by force
  then obtain url where url: "map_of inner archName = Some url"
    by (cases "map_of inner archName") (auto simp: map_of_eq_None_iff)
  then have "(archName, url) \<in> set inner" by (rule map_of_SomeD)
  with inner m url show ?thesis by (auto simp: lookup2_def)
qed

lemma urlsMap_keys_distinct: "distinct (map fst urlsMap)"
  by (simp add: urlsMap_def)

lemma urlsMap_urls_nonempty:
  "(osName, inner) \<in> set urlsMap \<Longrightarrow> (archName, url) \<in> set inner \<Longrightarrow> url \<noteq> []"
  by (auto simp: urlsMap_def)

text \<open>
  \<open>downloadAndUnzip\<close> for a platform without an entry, when no archive has been
  fetched before: the probe of the archive path is its only call to the operating
  system before it returns the error of \<open>getDownloadURL\<close>.
\<close>

lemma downloadAndUnzip_unsupported_platform:
  assumes "file_stat env zippedBinaryFilePath = Some statErr"
    and "getDownloadURL osName archName = (url, Some err)"
  shows "downloadAndUnzip env osName archName tr =
           (Provisioned (Some (Errorf ''failed finding download link: %v'' [ErrArg err])),
            tr @ [FileStat zippedBinaryFilePath])"
  using assms by (simp add: downloadAndUnzip_def fetchArchive_def)

text \<open>
  When a file is already at the archive path, \<open>downloadAndUnzip\<close> does not look the
  URL up, and the platform has no influence on what it does.
\<close>

lemma downloadAndUnzip_archive_present:
  assumes "file_stat env zippedBinaryFilePath = None"
  shows "downloadAndUnzip env osName archName tr = downloadAndUnzip env osName' archName' tr"
  using assms by (simp add: downloadAndUnzip_def fetchArchive_def)

section \<open>The claims\<close>

text \<open>
  C1.  In every wrapper state, when the process lookup reports that a process named
  \<open>ipfs\<close> is running, \<open>StartDaemonInBackground\<close> sets the running flag, changes
  nothing else in the wrapper, returns \<open>nil\<close>, and its only call to the operating
  system is the \<open>pgrep\<close> of the lookup: no command is started.
\<close>

theorem StartDaemonInBackground_adopts_running_daemon:
  assumes "fst (fst (IsProgramRunning env ''ipfs'' tr))"
  shows "StartDaemonInBackground env wrap tr =
           (None, wrap\<lparr>isDaemonRunning := True\<rparr>, tr @ [ExecPgrep ''ipfs''])
         \<and> (\<forall>setsid. CmdStart setsid \<notin> set (drop (length tr) (snd (snd (StartDaemonInBackground env wrap tr)))))"
proof -
  have tr1: "snd (IsProgramRunning env ''ipfs'' tr) = tr @ [ExecPgrep ''ipfs'']"
    by (simp add: IsProgramRunning_def Let_def split: prod.splits option.splits error.splits)
  obtain r e t where ip: "IsProgramRunning env ''ipfs'' tr = ((r, e), t)"
    by (cases "IsProgramRunning env ''ipfs'' tr") auto
  with assms have r by simp
  with ip have "StartDaemonInBackground env wrap tr =
          (None, wrap\<lparr>isDaemonRunning := True\<rparr>, snd (IsProgramRunning env ''ipfs'' tr))"
    by (simp add: StartDaemonInBackground_def)
  then have "StartDaemonInBackground env wrap tr =
          (None, wrap\<lparr>isDaemonRunning := True\<rparr>, tr @ [ExecPgrep ''ipfs''])"
    by (simp only: tr1)
  then show ?thesis by simp
qed

theorem StartDaemonInBackground_adopts_running_daemon_witness:
  "StartDaemonInBackground (pgrepAnswers (None, ''977\<newline>'')) (initialWrapper ''linux'' ''amd64'') [] =
     (None, (initialWrapper ''linux'' ''amd64'')\<lparr>isDaemonRunning := True\<rparr>, [ExecPgrep ''ipfs''])"
proof -
  have trim: "TrimSpace ''977\<newline>'' = ''977''"
    by code_simp
  have running: "fst (fst (IsProgramRunning (pgrepAnswers (None, ''977\<newline>'')) ''ipfs'' []))"
    by (simp add: IsProgramRunning_def pgrepAnswers_def quietEnv_def trim)
  show ?thesis
    using StartDaemonInBackground_adopts_running_daemon [OF running] by simp
qed

text \<open>
  C2.  In continuous mode \<open>ShutdownDaemon\<close> returns \<open>nil\<close>, makes no call to the
  operating system (no signal, no wait) and leaves every field of the wrapper as it
  was, the running flag included.  \<open>ForceShutdownDaemon\<close> in the same mode is the
  function that terminates: it sends \<open>SIGTERM\<close> to every process id that \<open>pgrep\<close>
  lists for \<open>ipfs\<close>.
\<close>

theorem ShutdownDaemon_continuous_is_noop:
  assumes "isDaemonRunningContinously wrap"
  shows "ShutdownDaemon env wrap tr = (Returned None, wrap, tr)
         \<and> (pgrep_run env ''ipfs'' = (None, out) \<longrightarrow>
            map Atoi (Fields out) = map Inr pids \<longrightarrow>
            (\<forall>p\<in>set pids. find_process env p = None) \<longrightarrow>
            (\<forall>p\<in>set pids. ProcessSignal p SIGTERM \<in> set (snd (snd (ForceShutdownDaemon env wrap tr)))))"
proof -
  have noop: "ShutdownDaemon env wrap tr = (Returned None, wrap, tr)"
    using assms by (simp add: ShutdownDaemon_def)
  have force: "\<forall>p\<in>set pids. ProcessSignal p SIGTERM \<in> set (snd (snd (ForceShutdownDaemon env wrap tr)))"
    if pg: "pgrep_run env ''ipfs'' = (None, out)"
      and parsed: "map Atoi (Fields out) = map Inr pids"
      and found: "\<forall>p\<in>set pids. find_process env p = None"
  proof -
    have "snd (snd (ForceShutdownDaemon env wrap tr)) =
            tr @ ExecPgrep ''ipfs'' # concat (map (\<lambda>p. [FindProcess p, ProcessSignal p SIGTERM]) pids)"
      using assms by (simp add: ForceShutdownDaemon_def TerminateProgram_signals_all [OF pg parsed found])
    then show ?thesis by auto
  qed
  from noop force show ?thesis by blast
qed

theorem ShutdownDaemon_continuous_is_noop_witness:
  "ShutdownDaemon (pgrepAnswers (None, ''977\<newline>''))
     ((WithContinousOperation (initialWrapper ''linux'' ''amd64''))\<lparr>isDaemonRunning := True\<rparr>) [] =
     (Returned None,
      (WithContinousOperation (initialWrapper ''linux'' ''amd64''))\<lparr>isDaemonRunning := True\<rparr>, [])
   \<and> ProcessSignal 977 SIGTERM \<in> set (snd (snd (ForceShutdownDaemon (pgrepAnswers (None, ''977\<newline>''))
     ((WithContinousOperation (initialWrapper ''linux'' ''amd64''))\<lparr>isDaemonRunning := True\<rparr>) [])))"
proof -
  have cont: "isDaemonRunningContinously
     ((WithContinousOperation (initialWrapper ''linux'' ''amd64''))\<lparr>isDaemonRunning := True\<rparr>)"
    by (simp add: WithContinousOperation_def)
  have pg: "pgrep_run (pgrepAnswers (None, ''977\<newline>'')) ''ipfs'' = (None, ''977\<newline>'')"
    by (simp add: pgrepAnswers_def quietEnv_def)
  have fields: "Fields ''977\<newline>'' = [''977'']"
    by code_simp
  have atoi: "Atoi ''977'' = Inr 977"
    by code_simp
  have parsed: "map Atoi (Fields ''977\<newline>'') = map Inr [977]"
    by (simp add: fields atoi)
  have found: "\<forall>p\<in>set [977]. find_process (pgrepAnswers (None, ''977\<newline>'')) p = None"
    by (simp add: pgrepAnswers_def quietEnv_def)
  show ?thesis
    using ShutdownDaemon_continuous_is_noop [OF cont, of "pgrepAnswers (None, ''977\<newline>'')" "[]" "''977\<newline>''" "[977]"]
          pg parsed found
    by simp
qed

text \<open>
  C3.  Outside continuous mode \<open>ShutdownDaemon\<close> clears the running flag first: the
  flag is false in the wrapper it leaves behind on every path, also when the kill
  signal could not be sent or the function panicked on a handle without a child.  When
  the kill was sent and the wait fails with an \<open>ExitError\<close> whose exit code is
  \<open>-1\<close> (the child died by a signal), the function returns \<open>nil\<close>; every other
  error of the wait is returned to the caller, wrapped in
  \<open>Command exited with error\<close>.
\<close>

theorem ShutdownDaemon_ephemeral:
  assumes "\<not> isDaemonRunningContinously wrap"
  shows "fst (snd (ShutdownDaemon env wrap tr)) = wrap\<lparr>isDaemonRunning := False\<rparr>
         \<and> (cmd_process wrap = Some pid \<longrightarrow> process_kill env pid = None \<longrightarrow>
            cmd_wait env pid = Some (ExitError (- 1)) \<longrightarrow>
            ShutdownDaemon env wrap tr =
              (Returned None, wrap\<lparr>isDaemonRunning := False\<rparr>, tr @ [ProcessKill pid, CmdWait pid]))
         \<and> (cmd_process wrap = Some pid \<longrightarrow> process_kill env pid = None \<longrightarrow>
            cmd_wait env pid = Some waitErr \<longrightarrow> waitErr \<noteq> ExitError (- 1) \<longrightarrow>
            ShutdownDaemon env wrap tr =
              (Returned (Some (Errorf ''Command exited with error: %v\<newline>'' [ErrArg waitErr])),
               wrap\<lparr>isDaemonRunning := False\<rparr>, tr @ [ProcessKill pid, CmdWait pid]))"
proof -
  have flag: "fst (snd (ShutdownDaemon env wrap tr)) = wrap\<lparr>isDaemonRunning := False\<rparr>"
    using assms
    by (simp add: ShutdownDaemon_def Let_def split: option.splits error.splits)
  have killed: "ShutdownDaemon env wrap tr =
              (Returned None, wrap\<lparr>isDaemonRunning := False\<rparr>, tr @ [ProcessKill pid, CmdWait pid])"
    if "cmd_process wrap = Some pid" "process_kill env pid = None"
       "cmd_wait env pid = Some (ExitError (- 1))"
    using assms that by (simp add: ShutdownDaemon_def)
  have other: "ShutdownDaemon env wrap tr =
              (Returned (Some (Errorf ''Command exited with error: %v\<newline>'' [ErrArg waitErr])),
               wrap\<lparr>isDaemonRunning := False\<rparr>, tr @ [ProcessKill pid, CmdWait pid])"
    if "cmd_process wrap = Some pid" "process_kill env pid = None"
       "cmd_wait env pid = Some waitErr" "waitErr \<noteq> ExitError (- 1)"
    using assms that by (cases waitErr) (simp_all add: ShutdownDaemon_def)
  from flag killed other show ?thesis by blast
qed

theorem ShutdownDaemon_ephemeral_witness:
  "ShutdownDaemon quietEnv ((initialWrapper ''linux'' ''amd64'')\<lparr>cmd_process := Some 4242, isDaemonRunning := True\<rparr>) [] =
     (Returned None,
      (initialWrapper ''linux'' ''amd64'')\<lparr>cmd_process := Some 4242, isDaemonRunning := False\<rparr>,
      [ProcessKill 4242, CmdWait 4242])
   \<and> fst (ShutdownDaemon (waitAnswers (Some (ExitError 2)))
       ((initialWrapper ''linux'' ''amd64'')\<lparr>cmd_process := Some 4242, isDaemonRunning := True\<rparr>) []) =
     Returned (Some (Errorf ''Command exited with error: %v\<newline>'' [ErrArg (ExitError 2)]))"
proof -
  have eph: "\<not> isDaemonRunningContinously
      ((initialWrapper ''linux'' ''amd64'')\<lparr>cmd_process := Some 4242, isDaemonRunning := True\<rparr>)"
    by (simp add: initialWrapper_def)
  have proc: "cmd_process
      ((initialWrapper ''linux'' ''amd64'')\<lparr>cmd_process := Some 4242, isDaemonRunning := True\<rparr>) = Some 4242"
    by simp
  have a: "ShutdownDaemon quietEnv ((initialWrapper ''linux'' ''amd64'')\<lparr>cmd_process := Some 4242, isDaemonRunning := True\<rparr>) [] =
     (Returned None,
      (initialWrapper ''linux'' ''amd64'')\<lparr>cmd_process := Some 4242, isDaemonRunning := False\<rparr>,
      [ProcessKill 4242, CmdWait 4242])"
    using ShutdownDaemon_ephemeral [OF eph, of quietEnv "[]" 4242] proc
    by (simp add: quietEnv_def)
  have b: "fst (ShutdownDaemon (waitAnswers (Some (ExitError 2)))
       ((initialWrapper ''linux'' ''amd64'')\<lparr>cmd_process := Some 4242, isDaemonRunning := True\<rparr>) []) =
     Returned (Some (Errorf ''Command exited with error: %v\<newline>'' [ErrArg (ExitError 2)]))"
    using ShutdownDaemon_ephemeral [OF eph, of "waitAnswers (Some (ExitError 2))" "[]" 4242 "ExitError 2"] proc
    by (simp add: waitAnswers_def quietEnv_def)
  from a b show ?thesis by simp
qed

text \<open>
  C4, as stated, at the output \<open>100.00%added Qm1 f.txt\<close>: no field is the literal
  token \<open>added\<close>, and yet \<open>AddFile\<close> does not return the empty identifier.  The scan
  tests each field with \<open>strings.Contains\<close>, so the first field is the marker.
\<close>

theorem AddFile_literal_marker_counterexample:
  "\<not> (''added'' \<notin> set (Fields ''100.00%added Qm1 f.txt'') \<longrightarrow>
      fst (AddFile (ipfsAnswers (''100.00%added Qm1 f.txt'', None)) ''f.txt'' []) = ([], None))"
proof -
  have fields: "Fields ''100.00%added Qm1 f.txt'' = [''100.00%added'', ''Qm1'', ''f.txt'']"
    by code_simp
  have "fst (AddFile (ipfsAnswers (''100.00%added Qm1 f.txt'', None)) ''f.txt'' []) = (''Qm1'', None)"
    by (simp add: AddFile_def addFileWith_def ipfsAnswers_def quietEnv_def fields)
  then show ?thesis by (simp add: fields)
qed

text \<open>
  C4, amended.  When the add command succeeds, \<open>AddFile\<close> (in both files) splits the
  output into fields and looks, from the left, for the first field that contains
  \<open>added\<close> as a substring; it returns the field right after that one as the content
  identifier, and the empty identifier when no field contains \<open>added\<close> or the first
  such field is the last one; the error is \<open>nil\<close> in all three cases.
\<close>

theorem AddFile_returns_field_after_marker:
  "(ipfs_combined_output env [''add'', filepath, ''--cid-version=1''] = (output, None) \<longrightarrow>
      AddFile env filepath tr =
        (((case dropWhile (\<lambda>part. \<not> Contains part ''added'') (Fields output) of
             marker # cid # rest \<Rightarrow> cid
           | _ \<Rightarrow> []), None),
         tr @ [ExecIpfs [''add'', filepath, ''--cid-version=1'']]))
   \<and> (ipfs_combined_output env [''add'', filepath] = (output, None) \<longrightarrow>
      AddFile_commands env filepath tr =
        (((case dropWhile (\<lambda>part. \<not> Contains part ''added'') (Fields output) of
             marker # cid # rest \<Rightarrow> cid
           | _ \<Rightarrow> []), None),
         tr @ [ExecIpfs [''add'', filepath]]))"
proof -
  have scan: "addFileWith env args tr =
          (((case dropWhile (\<lambda>part. \<not> Contains part ''added'') (Fields output) of
               marker # cid # rest \<Rightarrow> cid
             | _ \<Rightarrow> []), None),
           tr @ [ExecIpfs args])"
    if "ipfs_combined_output env args = (output, None)" for args
    using that by (simp add: addFileWith_def addFileScan_eq [OF Fields_no_empty])
  show ?thesis
    using scan [of "[''add'', filepath, ''--cid-version=1'']"] scan [of "[''add'', filepath]"]
    by (simp add: AddFile_def AddFile_commands_def)
qed

theorem AddFile_returns_field_after_marker_witness:
  "AddFile (ipfsAnswers (''added Qm1 f.txt'', None)) ''f.txt'' [] =
     ((''Qm1'', None), [ExecIpfs [''add'', ''f.txt'', ''--cid-version=1'']])
   \<and> AddFile_commands (ipfsAnswers (''nothing here'', None)) ''f.txt'' [] =
     (([], None), [ExecIpfs [''add'', ''f.txt'']])"
proof -
  have f1: "Fields ''added Qm1 f.txt'' = [''added'', ''Qm1'', ''f.txt'']"
    by code_simp
  have f2: "Fields ''nothing here'' = [''nothing'', ''here'']"
    by code_simp
  have o1: "ipfs_combined_output (ipfsAnswers (''added Qm1 f.txt'', None))
              [''add'', ''f.txt'', ''--cid-version=1''] = (''added Qm1 f.txt'', None)"
    by (simp add: ipfsAnswers_def quietEnv_def)
  have o2: "ipfs_combined_output (ipfsAnswers (''nothing here'', None))
              [''add'', ''f.txt''] = (''nothing here'', None)"
    by (simp add: ipfsAnswers_def quietEnv_def)
  have a1: "AddFile (ipfsAnswers (''added Qm1 f.txt'', None)) ''f.txt'' [] =
     ((''Qm1'', None), [ExecIpfs [''add'', ''f.txt'', ''--cid-version=1'']])"
    using AddFile_returns_field_after_marker
            [of "ipfsAnswers (''added Qm1 f.txt'', None)" "''f.txt''" "''added Qm1 f.txt''" "[]"] o1
    by (simp add: f1)
  have a2: "AddFile_commands (ipfsAnswers (''nothing here'', None)) ''f.txt'' [] =
     (([], None), [ExecIpfs [''add'', ''f.txt'']])"
    using AddFile_returns_field_after_marker
            [of "ipfsAnswers (''nothing here'', None)" "''f.txt''" "''nothing here''" "[]"] o2
    by (simp add: f2)
  from a1 a2 show ?thesis by simp
qed

text \<open>
  C5.  When the pin-list command succeeds, \<open>ListPinsByType\<close> returns the fields of
  its output without the fields that are exactly \<open>recursive\<close>, \<open>indirect\<close> or
  \<open>direct\<close>, in the order of the output, together with the \<open>nil\<close> error; none of
  the three labels is an entry of the returned list.
\<close>

theorem ListPinsByType_drops_labels:
  assumes "ipfs_combined_output env [''pin'', ''ls'', ''--type='' @ typeID, ''--stream=true'']
             = (output, None)"
  shows "fst (ListPinsByType env typeID tr) =
           (filter (\<lambda>part. part \<noteq> ''recursive'' \<and> part \<noteq> ''indirect'' \<and> part \<noteq> ''direct'')
                   (Fields output), None)
         \<and> ''recursive'' \<notin> set (fst (fst (ListPinsByType env typeID tr)))
         \<and> ''indirect'' \<notin> set (fst (fst (ListPinsByType env typeID tr)))
         \<and> ''direct'' \<notin> set (fst (fst (ListPinsByType env typeID tr)))"
proof -
  have keep: "(\<lambda>part. part \<notin> set ignorePartArr) =
              (\<lambda>part. part \<noteq> ''recursive'' \<and> part \<noteq> ''indirect'' \<and> part \<noteq> ''direct'')"
    by (auto simp: ignorePartArr_def)
  have "fst (ListPinsByType env typeID tr) = (pinScan (Fields output) [] False, None)"
    using assms by (simp add: ListPinsByType_def)
  then have res: "fst (ListPinsByType env typeID tr) =
           (filter (\<lambda>part. part \<noteq> ''recursive'' \<and> part \<noteq> ''indirect'' \<and> part \<noteq> ''direct'')
                   (Fields output), None)"
    by (simp add: pinScan_eq keep)
  then show ?thesis by simp
qed

theorem ListPinsByType_drops_labels_witness:
  "fst (ListPinsByType (ipfsAnswers (''Qm1 recursive Qm2 direct indirect-x Qm3 indirect'', None)) ''all'' []) =
     ([''Qm1'', ''Qm2'', ''indirect-x'', ''Qm3''], None)"
proof -
  have out: "ipfs_combined_output (ipfsAnswers (''Qm1 recursive Qm2 direct indirect-x Qm3 indirect'', None))
          [''pin'', ''ls'', ''--type='' @ ''all'', ''--stream=true'']
        = (''Qm1 recursive Qm2 direct indirect-x Qm3 indirect'', None)"
    by (simp add: ipfsAnswers_def quietEnv_def)
  have fields: "Fields ''Qm1 recursive Qm2 direct indirect-x Qm3 indirect''
        = [''Qm1'', ''recursive'', ''Qm2'', ''direct'', ''indirect-x'', ''Qm3'', ''indirect'']"
    by code_simp
  show ?thesis
    using ListPinsByType_drops_labels [OF out, of "[]"] by (simp add: fields)
qed

text \<open>
  C6, as stated, at the pair \<open>windows\<close>, \<open>arm64\<close>, which has no entry, on a
  machine where no archive has been fetched yet: \<open>downloadAndUnzip\<close> fails with the
  error of \<open>getDownloadURL\<close>, but not before any disk activity, since it has probed
  the archive path with \<open>os.Stat\<close> first.
\<close>

theorem getDownloadURL_no_activity_counterexample:
  "\<not> ((''windows'', ''arm64'') \<notin> set (tablePairs urlsMap) \<longrightarrow>
      fst (downloadAndUnzip quietEnv ''windows'' ''arm64'' []) =
        Provisioned (Some (Errorf ''failed finding download link: %v''
          [ErrArg (Errorf
             ''could not find downloadable link for operating system `%s` and architecture `%s`''
             [StrArg ''windows'', StrArg ''arm64''])]))
      \<and> snd (downloadAndUnzip quietEnv ''windows'' ''arm64'' []) = [])"
proof -
  have outside: "(''windows'', ''arm64'') \<notin> set (tablePairs urlsMap)"
    by (simp add: tablePairs_def urlsMap_def)
  have "snd (downloadAndUnzip quietEnv ''windows'' ''arm64'' []) = [FileStat ''./bin/ipfs.tar.gz'']"
    by (simp add: downloadAndUnzip_def fetchArchive_def getDownloadURL_def lookup2_def urlsMap_def
                  quietEnv_def zippedBinaryFilePath_def)
  with outside show ?thesis by simp
qed

text \<open>
  C6, amended.  The download table has entries for fifteen pairs of operating system
  and architecture.  For each of them \<open>getDownloadURL\<close> returns a URL that is not
  empty, with the \<open>nil\<close> error; for every other pair it returns the empty string with
  the error \<open>could not find downloadable link\<close> for that pair.  The lookup itself
  makes no call to the operating system, but its caller \<open>downloadAndUnzip\<close> probes
  the archive path with \<open>os.Stat\<close> before it: when no file is at the archive path, a
  pair without an entry makes \<open>downloadAndUnzip\<close> return that error after this one
  probe, before any download, directory creation, extraction, removal or change of
  mode; when a file is at the archive path, the lookup is not made and the pair has no
  influence on what \<open>downloadAndUnzip\<close> does.
\<close>

theorem getDownloadURL_total_on_table:
  "tablePairs urlsMap =
     [(''darwin'', ''arm64''), (''darwin'', ''amd64''),
      (''linux'', ''arm''), (''linux'', ''arm64''), (''linux'', ''386''), (''linux'', ''amd64''),
      (''freebsd'', ''arm''), (''freebsd'', ''386''), (''freebsd'', ''amd64''),
      (''openbsd'', ''arm''), (''openbsd'', ''386''), (''openbsd'', ''amd64''),
      (''windows'', ''arm''), (''windows'', ''386''), (''windows'', ''amd64'')]
   \<and> ((osName, archName) \<in> set (tablePairs urlsMap) \<longrightarrow>
        (\<exists>url. url \<noteq> [] \<and> getDownloadURL osName archName = (url, None)))
   \<and> ((osName, archName) \<notin> set (tablePairs urlsMap) \<longrightarrow>
        getDownloadURL osName archName =
          ([], Some (Errorf
             ''could not find downloadable link for operating system `%s` and architecture `%s`''
             [StrArg osName, StrArg archName])))
   \<and> ((osName, archName) \<notin> set (tablePairs urlsMap) \<longrightarrow>
        file_stat env zippedBinaryFilePath = Some statErr \<longrightarrow>
        downloadAndUnzip env osName archName tr =
          (Provisioned (Some (Errorf ''failed finding download link: %v''
             [ErrArg (Errorf
                ''could not find downloadable link for operating system `%s` and architecture `%s`''
                [StrArg osName, StrArg archName])])),
           tr @ [FileStat zippedBinaryFilePath]))
   \<and> (file_stat env zippedBinaryFilePath = None \<longrightarrow>
        downloadAndUnzip env osName archName tr = downloadAndUnzip env osName' archName' tr)"
proof -
  have pairs: "tablePairs urlsMap =
     [(''darwin'', ''arm64''), (''darwin'', ''amd64''),
      (''linux'', ''arm''), (''linux'', ''arm64''), (''linux'', ''386''), (''linux'', ''amd64''),
      (''freebsd'', ''arm''), (''freebsd'', ''386''), (''freebsd'', ''amd64''),
      (''openbsd'', ''arm''), (''openbsd'', ''386''), (''openbsd'', ''amd64''),
      (''windows'', ''arm''), (''windows'', ''386''), (''windows'', ''amd64'')]"
    by (simp add: tablePairs_def urlsMap_def)
  have present: "\<exists>url. url \<noteq> [] \<and> getDownloadURL osName archName = (url, None)"
    if "(osName, archName) \<in> set (tablePairs urlsMap)"
  proof -
    from tablePairs_in_lookup2 [OF urlsMap_keys_distinct that]
    obtain inner url where "(osName, inner) \<in> set urlsMap" "(archName, url) \<in> set inner"
      and found: "lookup2 urlsMap osName archName = Some url"
      by blast
    then have "url \<noteq> []" by (auto dest: urlsMap_urls_nonempty)
    moreover from found have "getDownloadURL osName archName = (url, None)"
      by (simp add: getDownloadURL_def)
    ultimately show ?thesis by blast
  qed
  have absent: "getDownloadURL osName archName =
          ([], Some (Errorf
             ''could not find downloadable link for operating system `%s` and architecture `%s`''
             [StrArg osName, StrArg archName]))"
    if "(osName, archName) \<notin> set (tablePairs urlsMap)"
  proof (cases "lookup2 urlsMap osName archName")
    case None
    then show ?thesis by (simp add: getDownloadURL_def)
  next
    case (Some url)
    then have "(osName, archName) \<in> set (tablePairs urlsMap)"
      by (rule lookup2_in_tablePairs)
    with that show ?thesis by simp
  qed
  have probe: "downloadAndUnzip env osName archName tr =
          (Provisioned (Some (Errorf ''failed finding download link: %v''
             [ErrArg (Errorf
                ''could not find downloadable link for operating system `%s` and architecture `%s`''
                [StrArg osName, StrArg archName])])),
           tr @ [FileStat zippedBinaryFilePath])"
    if "(osName, archName) \<notin> set (tablePairs urlsMap)"
      and "file_stat env zippedBinaryFilePath = Some statErr"
    by (rule downloadAndUnzip_unsupported_platform [OF that(2) absent [OF that(1)]])
  have skipped: "downloadAndUnzip env osName archName tr = downloadAndUnzip env osName' archName' tr"
    if "file_stat env zippedBinaryFilePath = None"
    by (rule downloadAndUnzip_archive_present [OF that])
  from pairs present absent probe skipped show ?thesis by blast
qed

theorem getDownloadURL_total_on_table_witness:
  "getDownloadURL ''linux'' ''amd64'' =
     (''https://dist.ipfs.tech/kubo/v0.29.0/kubo_v0.29.0_linux-amd64.tar.gz'', None)
   \<and> getDownloadURL ''windows'' ''arm64'' =
     ([], Some (Errorf
        ''could not find downloadable link for operating system `%s` and architecture `%s`''
        [StrArg ''windows'', StrArg ''arm64'']))
   \<and> downloadAndUnzip quietEnv ''windows'' ''arm64'' [] =
     (Provisioned (Some (Errorf ''failed finding download link: %v''
        [ErrArg (Errorf
           ''could not find downloadable link for operating system `%s` and architecture `%s`''
           [StrArg ''windows'', StrArg ''arm64''])])),
      [FileStat ''./bin/ipfs.tar.gz''])
   \<and> downloadAndUnzip (statAnswers None) ''windows'' ''arm64'' [] =
     (Provisioned None,
      [FileStat ''./bin/ipfs.tar.gz'', MkdirAll ''./bin/kubo'', MkdirAll ''./bin/kubo/data'',
       ExtractTarGzip ''./bin/ipfs.tar.gz'' ''bin'', FileRemove ''./bin/ipfs.tar.gz'',
       Chmod ''./bin/kubo/ipfs''])"
proof -
  have inside: "(''linux'', ''amd64'') \<in> set (tablePairs urlsMap)"
    by (simp add: tablePairs_def urlsMap_def)
  have outside: "(''windows'', ''arm64'') \<notin> set (tablePairs urlsMap)"
    by (simp add: tablePairs_def urlsMap_def)
  have missing: "file_stat quietEnv zippedBinaryFilePath = Some (OtherError ''no such file or directory'')"
    by (simp add: quietEnv_def)
  have there: "file_stat (statAnswers None) zippedBinaryFilePath = None"
    by (simp add: statAnswers_def quietEnv_def)
  from getDownloadURL_total_on_table [of "''linux''" "''amd64''"] inside
  obtain url where "url \<noteq> []" and "getDownloadURL ''linux'' ''amd64'' = (url, None)"
    by blast
  moreover have "fst (getDownloadURL ''linux'' ''amd64'') =
      ''https://dist.ipfs.tech/kubo/v0.29.0/kubo_v0.29.0_linux-amd64.tar.gz''"
    by (simp add: getDownloadURL_def lookup2_def urlsMap_def)
  ultimately have a: "getDownloadURL ''linux'' ''amd64'' =
     (''https://dist.ipfs.tech/kubo/v0.29.0/kubo_v0.29.0_linux-amd64.tar.gz'', None)"
    by simp
  have b: "getDownloadURL ''windows'' ''arm64'' =
     ([], Some (Errorf
        ''could not find downloadable link for operating system `%s` and architecture `%s`''
        [StrArg ''windows'', StrArg ''arm64'']))"
    using getDownloadURL_total_on_table [of "''windows''" "''arm64''"] outside
    by blast
  have c: "downloadAndUnzip quietEnv ''windows'' ''arm64'' [] =
     (Provisioned (Some (Errorf ''failed finding download link: %v''
        [ErrArg (Errorf
           ''could not find downloadable link for operating system `%s` and architecture `%s`''
           [StrArg ''windows'', StrArg ''arm64''])])),
      [FileStat ''./bin/ipfs.tar.gz''])"
    using getDownloadURL_total_on_table
            [of "''windows''" "''arm64''" quietEnv "OtherError ''no such file or directory''" "[]"]
          outside missing
    by (simp add: zippedBinaryFilePath_def)
  have linux: "downloadAndUnzip (statAnswers None) ''linux'' ''amd64'' [] =
     (Provisioned None,
      [FileStat ''./bin/ipfs.tar.gz'', MkdirAll ''./bin/kubo'', MkdirAll ''./bin/kubo/data'',
       ExtractTarGzip ''./bin/ipfs.tar.gz'' ''bin'', FileRemove ''./bin/ipfs.tar.gz'',
       Chmod ''./bin/kubo/ipfs''])"
    by (simp add: downloadAndUnzip_def fetchArchive_def statAnswers_def quietEnv_def
                  zippedBinaryFilePath_def IPFSDataDirPath_def IPFSBinaryFilePath_def)
  have d: "downloadAndUnzip (statAnswers None) ''windows'' ''arm64'' [] =
     (Provisioned None,
      [FileStat ''./bin/ipfs.tar.gz'', MkdirAll ''./bin/kubo'', MkdirAll ''./bin/kubo/data'',
       ExtractTarGzip ''./bin/ipfs.tar.gz'' ''bin'', FileRemove ''./bin/ipfs.tar.gz'',
       Chmod ''./bin/kubo/ipfs''])"
    using getDownloadURL_total_on_table
            [of "''windows''" "''arm64''" "statAnswers None" _ "[]" "''linux''" "''amd64''"]
          there linux
    by simp
  from a b c d show ?thesis by simp
qed

text \<open>
  C7.  Whenever \<open>StartDaemonInBackground\<close> returns an error, whatever the cause (the
  lookup failed, \<open>/dev/null\<close> did not open, or the command did not start), the running
  flag of the wrapper is the one it had before the call; a flag that was false is
  still false.
\<close>

theorem StartDaemonInBackground_error_keeps_running_flag:
  assumes "StartDaemonInBackground env wrap tr = (Some err, wrap', tr')"
  shows "isDaemonRunning wrap' = isDaemonRunning wrap"
  using assms
  by (auto simp: StartDaemonInBackground_def startCommand_def Let_def
           split: prod.splits if_splits option.splits sum.splits)

theorem StartDaemonInBackground_error_keeps_running_flag_witness:
  "isDaemonRunning (fst (snd (StartDaemonInBackground (pgrepAnswers (Some (OtherError ''pgrep: not found''), []))
      (initialWrapper ''linux'' ''amd64'') []))) = False
   \<and> isDaemonRunning (fst (snd (StartDaemonInBackground (startAnswers (Inl (OtherError ''no such file'')))
      (initialWrapper ''linux'' ''amd64'') []))) = False"
proof -
  have e1: "StartDaemonInBackground (pgrepAnswers (Some (OtherError ''pgrep: not found''), []))
      (initialWrapper ''linux'' ''amd64'') [] =
      (Some (Errorf ''is program running error: %v'' [ErrArg (OtherError ''pgrep: not found'')]),
       initialWrapper ''linux'' ''amd64'', [ExecPgrep ''ipfs''])"
    by (simp add: StartDaemonInBackground_def IsProgramRunning_def pgrepAnswers_def quietEnv_def)
  have e2: "StartDaemonInBackground (startAnswers (Inl (OtherError ''no such file'')))
      (initialWrapper ''linux'' ''amd64'') [] =
      (Some (Errorf ''Error starting command: %v\<newline>'' [ErrArg (OtherError ''no such file'')]),
       initialWrapper ''linux'' ''amd64'', [ExecPgrep ''ipfs'', CmdStart False])"
    by (simp add: StartDaemonInBackground_def IsProgramRunning_def startCommand_def
                  startAnswers_def quietEnv_def initialWrapper_def)
  have init: "isDaemonRunning (initialWrapper ''linux'' ''amd64'') = False"
    by (simp add: initialWrapper_def)
  show ?thesis
    using StartDaemonInBackground_error_keeps_running_flag [OF e1]
          StartDaemonInBackground_error_keeps_running_flag [OF e2]
    by (simp add: e1 e2 init)
qed

text \<open>
  C8.  In continuous mode \<open>ForceShutdownDaemon\<close> clears the running flag and looks
  the daemon up by name: when \<open>pgrep\<close> lists the process ids (decimal numbers of
  processes that \<open>os.FindProcess\<close> finds), it sends \<open>SIGTERM\<close> to each of them, in
  the order of the list, and returns \<open>nil\<close>.  Whatever the lookup gives, its calls to
  the operating system are the \<open>pgrep\<close> run, \<open>FindProcess\<close> and \<open>SIGTERM\<close>
  signals: it never sends \<open>SIGKILL\<close> and never waits for a process to exit.  Outside
  continuous mode \<open>ForceShutdownDaemon\<close> is \<open>ShutdownDaemon\<close>.
\<close>

theorem ForceShutdownDaemon_behaviour:
  "(isDaemonRunningContinously wrap \<longrightarrow>
      fst (snd (ForceShutdownDaemon env wrap tr)) = wrap\<lparr>isDaemonRunning := False\<rparr>
      \<and> (pgrep_run env ''ipfs'' = (None, out) \<longrightarrow>
         map Atoi (Fields out) = map Inr pids \<longrightarrow>
         (\<forall>p\<in>set pids. find_process env p = None) \<longrightarrow>
         ForceShutdownDaemon env wrap tr =
           (Returned None, wrap\<lparr>isDaemonRunning := False\<rparr>,
            tr @ ExecPgrep ''ipfs'' # concat (map (\<lambda>p. [FindProcess p, ProcessSignal p SIGTERM]) pids)))
      \<and> (\<exists>evs. snd (snd (ForceShutdownDaemon env wrap tr)) = tr @ evs
            \<and> (\<forall>ev\<in>set evs. ev = ExecPgrep ''ipfs'' \<or> (\<exists>p. ev = FindProcess p)
                               \<or> (\<exists>p. ev = ProcessSignal p SIGTERM))))
   \<and> (\<not> isDaemonRunningContinously wrap \<longrightarrow>
      ForceShutdownDaemon env wrap tr = ShutdownDaemon env wrap tr)"
proof -
  have flag: "fst (snd (ForceShutdownDaemon env wrap tr)) = wrap\<lparr>isDaemonRunning := False\<rparr>"
    if "isDaemonRunningContinously wrap"
    using that by (simp add: ForceShutdownDaemon_def split: prod.splits)
  have all: "ForceShutdownDaemon env wrap tr =
           (Returned None, wrap\<lparr>isDaemonRunning := False\<rparr>,
            tr @ ExecPgrep ''ipfs'' # concat (map (\<lambda>p. [FindProcess p, ProcessSignal p SIGTERM]) pids))"
    if "isDaemonRunningContinously wrap" and pg: "pgrep_run env ''ipfs'' = (None, out)"
      and parsed: "map Atoi (Fields out) = map Inr pids"
      and found: "\<forall>p\<in>set pids. find_process env p = None"
    using that(1) by (simp add: ForceShutdownDaemon_def TerminateProgram_signals_all [OF pg parsed found])
  have events: "\<exists>evs. snd (snd (ForceShutdownDaemon env wrap tr)) = tr @ evs
            \<and> (\<forall>ev\<in>set evs. ev = ExecPgrep ''ipfs'' \<or> (\<exists>p. ev = FindProcess p)
                               \<or> (\<exists>p. ev = ProcessSignal p SIGTERM))"
    if "isDaemonRunningContinously wrap"
  proof -
    have "snd (snd (ForceShutdownDaemon env wrap tr)) = snd (TerminateProgram env ''ipfs'' tr)"
      using that by (simp add: ForceShutdownDaemon_def split: prod.splits)
    then show ?thesis
      using TerminateProgram_events [of env "''ipfs''" tr] by simp
  qed
  have same: "ForceShutdownDaemon env wrap tr = ShutdownDaemon env wrap tr"
    if "\<not> isDaemonRunningContinously wrap"
    using that by (simp add: ForceShutdownDaemon_def)
  from flag all events same show ?thesis by blast
qed

theorem ForceShutdownDaemon_behaviour_witness:
  "ForceShutdownDaemon (pgrepAnswers (None, ''977\<newline>1204\<newline>''))
     ((WithContinousOperation (initialWrapper ''linux'' ''amd64''))\<lparr>isDaemonRunning := True\<rparr>) [] =
     (Returned None,
      (WithContinousOperation (initialWrapper ''linux'' ''amd64''))\<lparr>isDaemonRunning := False\<rparr>,
      [ExecPgrep ''ipfs'', FindProcess 977, ProcessSignal 977 SIGTERM,
       FindProcess 1204, ProcessSignal 1204 SIGTERM])
   \<and> ForceShutdownDaemon quietEnv
       ((initialWrapper ''linux'' ''amd64'')\<lparr>cmd_process := Some 4242, isDaemonRunning := True\<rparr>) [] =
     ShutdownDaemon quietEnv
       ((initialWrapper ''linux'' ''amd64'')\<lparr>cmd_process := Some 4242, isDaemonRunning := True\<rparr>) []"
proof -
  have cont: "isDaemonRunningContinously
     ((WithContinousOperation (initialWrapper ''linux'' ''amd64''))\<lparr>isDaemonRunning := True\<rparr>)"
    by (simp add: WithContinousOperation_def)
  have eph: "\<not> isDaemonRunningContinously
      ((initialWrapper ''linux'' ''amd64'')\<lparr>cmd_process := Some 4242, isDaemonRunning := True\<rparr>)"
    by (simp add: initialWrapper_def)
  have pg: "pgrep_run (pgrepAnswers (None, ''977\<newline>1204\<newline>'')) ''ipfs'' = (None, ''977\<newline>1204\<newline>'')"
    by (simp add: pgrepAnswers_def quietEnv_def)
  have fields: "Fields ''977\<newline>1204\<newline>'' = [''977'', ''1204'']"
    by code_simp
  have atoi: "Atoi ''977'' = Inr 977" "Atoi ''1204'' = Inr 1204"
    by code_simp+
  have parsed: "map Atoi (Fields ''977\<newline>1204\<newline>'') = map Inr [977, 1204]"
    by (simp add: fields atoi)
  have found: "\<forall>p\<in>set [977, 1204]. find_process (pgrepAnswers (None, ''977\<newline>1204\<newline>'')) p = None"
    by (simp add: pgrepAnswers_def quietEnv_def)
  have a: "ForceShutdownDaemon (pgrepAnswers (None, ''977\<newline>1204\<newline>''))
     ((WithContinousOperation (initialWrapper ''linux'' ''amd64''))\<lparr>isDaemonRunning := True\<rparr>) [] =
     (Returned None,
      (WithContinousOperation (initialWrapper ''linux'' ''amd64''))\<lparr>isDaemonRunning := False\<rparr>,
      [ExecPgrep ''ipfs'', FindProcess 977, ProcessSignal 977 SIGTERM,
       FindProcess 1204, ProcessSignal 1204 SIGTERM])"
    using ForceShutdownDaemon_behaviour
            [of "(WithContinousOperation (initialWrapper ''linux'' ''amd64''))\<lparr>isDaemonRunning := True\<rparr>"
                "pgrepAnswers (None, ''977\<newline>1204\<newline>'')" "[]" "''977\<newline>1204\<newline>''" "[977, 1204]"]
          cont pg parsed found
    by simp
  have b: "ForceShutdownDaemon quietEnv
       ((initialWrapper ''linux'' ''amd64'')\<lparr>cmd_process := Some 4242, isDaemonRunning := True\<rparr>) [] =
     ShutdownDaemon quietEnv
       ((initialWrapper ''linux'' ''amd64'')\<lparr>cmd_process := Some 4242, isDaemonRunning := True\<rparr>) []"
    using ForceShutdownDaemon_behaviour
            [of "(initialWrapper ''linux'' ''amd64'')\<lparr>cmd_process := Some 4242, isDaemonRunning := True\<rparr>"
                quietEnv "[]"]
          eph
    by blast
  from a b show ?thesis by simp
qed

text \<open>
  C9 at the file name \<open>note.txt\<close> with the content \<open>hello\<close>, when the \<open>ipfs add\<close>
  command exits with status 1: \<open>AddFileContent\<close> of \<open>commands.go\<close> creates, writes
  and closes \<open>./note.txt\<close>, runs the command and returns its error at once; the file
  is never removed.
\<close>

theorem AddFileContent_commands_keeps_file_on_failure:
  "AddFileContent_commands (ipfsAnswers ([], Some (ExitError 1))) ''note.txt'' (Some ''hello'') [] =
     (([], Some (Errorf ''failed to add file to ipfs: %v, output: %s'' [ErrArg (ExitError 1), StrArg []])),
      [FileCreate ''./note.txt'', FileWrite ''./note.txt'' ''hello'', FileClose ''./note.txt'',
       ExecIpfs [''add'', ''note.txt'']])
   \<and> FileRemove ''./note.txt'' \<notin> set (snd (AddFileContent_commands
         (ipfsAnswers ([], Some (ExitError 1))) ''note.txt'' (Some ''hello'') []))"
  by (simp add: AddFileContent_commands_def AddFile_commands_def addFileWith_def writeTempFile_def
                ipfsAnswers_def quietEnv_def Let_def)

text \<open>
  C10.  With a \<open>nil\<close> content, and in \<open>commands.go\<close> also with an empty file name,
  \<open>AddFileContent\<close> returns the empty identifier and an error, and the trace is the
  one it was called with: no file has been created or written and no command has run.
\<close>

theorem AddFileContent_rejects_missing_input:
  "AddFileContent env None tr =
     (([], Some (Errorf ''cannot have missing: %v'' [StrArg ''fileContent''])), tr)
   \<and> AddFileContent_commands env [] fileContent tr =
     (([], Some (Errorf ''cannot have missing: %v'' [StrArg ''filename''])), tr)
   \<and> AddFileContent_commands env filename None tr =
     (([], Some (Errorf ''cannot have missing: %v''
                   [StrArg (if filename = [] then ''filename'' else ''fileContent'')])), tr)"
  by (simp add: AddFileContent_def AddFileContent_commands_def)

theorem AddFileContent_rejects_missing_input_witness:
  "AddFileContent quietEnv None [] =
     (([], Some (Errorf ''cannot have missing: %v'' [StrArg ''fileContent''])), [])
   \<and> AddFileContent_commands quietEnv [] (Some ''hello'') [] =
     (([], Some (Errorf ''cannot have missing: %v'' [StrArg ''filename''])), [])
   \<and> AddFileContent_commands quietEnv ''note.txt'' None [] =
     (([], Some (Errorf ''cannot have missing: %v'' [StrArg ''fileContent''])), [])"
  using AddFileContent_rejects_missing_input [of quietEnv "[]" "Some ''hello''" "''note.txt''"]
  by simp

end
